theory Spec2Isabelle
  imports Main
begin

section \<open>Data model of the server (src/server/index.js)\<close>

text \<open>
  The server keeps its state in two module-level values, the object \<open>dynamicModels\<close> and the
  Express router \<open>dynamicApiRouter\<close>, and talks to three libraries: \<open>jsonwebtoken\<close>,
  \<open>fs-extra\<close> and Sequelize. The libraries are not part of the repository; their calls are
  the fields of the record \<open>env\<close> below, over an abstract file system \<open>'fs\<close> and an abstract
  database \<open>'db\<close>. A call that throws returns \<open>Inl\<close> with the message of the exception.
  \<open>sequelize.define\<close> either throws or returns the model made of its three arguments, so
  its field \<open>orm_define\<close> only decides between the two.

  JSON values are typed: a model configuration is a record whose optional properties are
  \<open>option\<close>s (\<open>None\<close> is JavaScript's \<open>undefined\<close>), a permission matrix is a map from role
  names to lists of action names, a row is a list of attribute/value pairs.
\<close>

datatype sequelize_type = STRING | FLOAT | BOOLEAN | DATE

record field =
  f_name :: string
  f_type :: string
  f_required :: bool
  f_default :: "string option"
  f_unique :: bool

type_synonym matrix = "string \<rightharpoonup> string list"

record model_config =
  cfg_name :: "string option"
  cfg_tableName :: "string option"
  cfg_fields :: "field list option"
  cfg_rbac :: "matrix option"

record column =
  col_type :: sequelize_type
  col_allowNull :: bool
  col_defaultValue :: "string option"
  col_unique :: bool

text \<open>
  The object \<open>schema\<close> of \<open>registerModel\<close>: its properties in the order they were first
  assigned. Only the presence and the value of a property are used below.
\<close>

type_synonym schema = "(string \<times> column) list"

text \<open>The value of \<open>sequelize.define(modelName, schema, { tableName })\<close>.\<close>

record dyn_model =
  dm_name :: "string option"
  dm_schema :: schema
  dm_table :: string

text \<open>A value of \<open>dynamicModels\<close>: \<open>{ model: DynamicModel, config: modelConfig }\<close>.\<close>

record entry =
  model :: dyn_model
  config :: model_config

type_synonym row = "(string \<times> string) list"

text \<open>The payload of a token, as \<open>/auth/login\<close> signs it.\<close>

record claims =
  user_id :: string
  username :: string
  role :: string

datatype http_method = GET | POST | PUT | DELETE

record 'b request =
  req_method :: http_method
  req_path :: "string list"
  req_authorization :: "string option"
  req_body :: 'b

datatype content =
    Text string
  | Item row
  | Items "row list"
  | Schema model_config
  | Message string
  | Empty

record response =
  status :: nat
  content :: content

datatype log_line = Log string | Warn string | Error string

datatype crud_op = Create | ListAll | GetById | Update | Delete

text \<open>
  One call of \<open>dynamicApiRouter.post/get/put/delete\<close>: the method and path of the route and
  the variables its two closures capture (the configuration and action of the RBAC
  middleware, the Sequelize model of the handler).
\<close>

record route =
  rt_method :: http_method
  rt_base :: string
  rt_param :: bool
  rt_config :: model_config
  rt_action :: string
  rt_op :: crud_op
  rt_model :: dyn_model

record ('fs, 'db) env =
  jwt_verify :: "string \<Rightarrow> claims option"
  fs_ensureDir :: "'fs \<Rightarrow> (string + unit) \<times> 'fs"
  fs_readdir :: "'fs \<Rightarrow> string + string list"
  fs_readJson :: "string \<Rightarrow> 'fs \<Rightarrow> string + model_config"
  fs_writeJson :: "string \<Rightarrow> model_config \<Rightarrow> 'fs \<Rightarrow> (string + unit) \<times> 'fs"
  orm_define :: "string option \<Rightarrow> schema \<Rightarrow> string \<Rightarrow> string + unit"
  orm_sync :: "dyn_model \<Rightarrow> 'db \<Rightarrow> (string + unit) \<times> 'db"
  orm_create :: "dyn_model \<Rightarrow> row \<Rightarrow> 'db \<Rightarrow> (string + row) \<times> 'db"
  orm_findAll :: "dyn_model \<Rightarrow> 'db \<Rightarrow> (string + row list) \<times> 'db"
  orm_findByPk :: "dyn_model \<Rightarrow> string \<Rightarrow> 'db \<Rightarrow> (string + row option) \<times> 'db"
  orm_update :: "dyn_model \<Rightarrow> row \<Rightarrow> row \<Rightarrow> 'db \<Rightarrow> (string + row) \<times> 'db"
  orm_destroy :: "dyn_model \<Rightarrow> row \<Rightarrow> 'db \<Rightarrow> (string + unit) \<times> 'db"

record ('fs, 'db) state =
  dynamicModels :: "string \<rightharpoonup> entry"
  router :: "route list"
  console :: "log_line list"
  files :: 'fs
  db :: 'db

section \<open>JavaScript helpers\<close>

definition lowerChar :: "char \<Rightarrow> char" where
  "lowerChar c =
     (if c \<in> set ''ABCDEFGHIJKLMNOPQRSTUVWXYZ''
      then (case c of Char b0 b1 b2 b3 b4 b5 b6 b7 \<Rightarrow> Char b0 b1 b2 b3 b4 True b6 b7)
      else c)"

definition toLowerCase :: "string \<Rightarrow> string" where
  "toLowerCase s = map lowerChar s"

definition endsWith :: "string \<Rightarrow> string \<Rightarrow> bool" where
  "endsWith s suf = (length suf \<le> length s \<and> drop (length s - length suf) s = suf)"

fun split_on :: "char \<Rightarrow> string \<Rightarrow> string list" where
  "split_on c [] = [[]]"
| "split_on c (x # xs) =
     (if x = c then [] # split_on c xs
      else (case split_on c xs of [] \<Rightarrow> [[x]] | w # ws \<Rightarrow> (x # w) # ws))"

text \<open>Truthiness of an optional string: \<open>undefined\<close> and the empty string are falsy.\<close>

definition truthy :: "string option \<Rightarrow> bool" where
  "truthy s = (case s of None \<Rightarrow> False | Some v \<Rightarrow> v \<noteq> [])"

text \<open>An optional string used as a property key or inside a template literal.\<close>

definition js_string :: "string option \<Rightarrow> string" where
  "js_string s = (case s of None \<Rightarrow> ''undefined'' | Some v \<Rightarrow> v)"

text \<open>
  Reading \<open>obj[key]\<close> on a plain object. A key that is not a property of the object itself
  is looked up in \<open>Object.prototype\<close>, whose twelve properties are functions (and, for
  \<open>__proto__\<close>, the prototype object): truthy values that are neither arrays nor entries
  of the object. The objects read this way are the \<open>rbac\<close> object of a configuration,
  which \<open>JSON.parse\<close> builds from own properties only, and \<open>dynamicModels\<close>. Model names
  are taken to be other than \<open>__proto__\<close>, the one key whose assignment sets the prototype
  of an object instead of a property.
\<close>

datatype 'a js_prop = Undefined | Own 'a | Inherited

definition object_prototype_keys :: "string list" where
  "object_prototype_keys =
     [''constructor'', ''__defineGetter__'', ''__defineSetter__'', ''hasOwnProperty'',
      ''__lookupGetter__'', ''__lookupSetter__'', ''isPrototypeOf'', ''propertyIsEnumerable'',
      ''toString'', ''valueOf'', ''__proto__'', ''toLocaleString'']"

definition js_get :: "(string \<rightharpoonup> 'a) \<Rightarrow> string \<Rightarrow> 'a js_prop" where
  "js_get obj key =
     (case obj key of
        Some v \<Rightarrow> Own v
      | None \<Rightarrow> if key \<in> set object_prototype_keys then Inherited else Undefined)"

definition quoted :: "string \<Rightarrow> string" where
  "quoted s = [CHR 0x27] @ s @ [CHR 0x27]"

definition config_path :: "string \<Rightarrow> string" where
  "config_path file = ''models-config/'' @ file"

section \<open>Authentication middleware\<close>

text \<open>
  \<open>authMiddleware\<close>: the token is the second space-separated word of the Authorization
  header. \<open>Inl\<close> is the response sent; \<open>Inr\<close> is \<open>next()\<close> with \<open>req.user\<close> set.
\<close>

definition bearer_token :: "string option \<Rightarrow> string option" where
  "bearer_token h =
     (case h of None \<Rightarrow> None
      | Some v \<Rightarrow> (case split_on CHR '' '' v of _ # t # _ \<Rightarrow> Some t | _ \<Rightarrow> None))"

definition authMiddleware :: "('fs, 'db) env \<Rightarrow> 'b request \<Rightarrow> response + claims" where
  "authMiddleware e req =
     (let token = bearer_token (req_authorization req) in
      if \<not> truthy token then Inl \<lparr>status = 401, content = Text ''Access denied. No token provided.''\<rparr>
      else (case jwt_verify e (js_string token) of
              None \<Rightarrow> Inl \<lparr>status = 400, content = Text ''Invalid token.''\<rparr>
            | Some decoded \<Rightarrow> Inr decoded))"

datatype mw_result = Next | Send response | Raise string

definition adminOnly :: "claims \<Rightarrow> mw_result" where
  "adminOnly user =
     (if role user \<noteq> ''Admin''
      then Send \<lparr>status = 403, content = Text ''Forbidden. Admin access required.''\<rparr>
      else Next)"

section \<open>Type mapper and RBAC middleware\<close>

definition getSequelizeType :: "string \<Rightarrow> sequelize_type" where
  "getSequelizeType t =
     (if t = ''string'' then STRING
      else if t = ''number'' then FLOAT
      else if t = ''boolean'' then BOOLEAN
      else if t = ''date'' then DATE
      else STRING)"

text \<open>
  \<open>createRbacMiddleware(modelConfig, action)\<close> applied to a request whose \<open>req.user\<close> is
  \<open>user\<close>. Reading \<open>modelConfig.rbac[userRole]\<close> throws a TypeError when the configuration
  has no \<open>rbac\<close> property. When the role names a property of \<open>Object.prototype\<close> that the
  matrix does not define, \<open>permissions\<close> is truthy and has no method \<open>includes\<close>, and the
  call \<open>permissions.includes(action)\<close> throws a TypeError.
\<close>

definition forbidden_message :: "model_config \<Rightarrow> string \<Rightarrow> string \<Rightarrow> string" where
  "forbidden_message modelConfig userRole action =
     ''Forbidden: Role '' @ quoted userRole @ '' cannot perform '' @ quoted action @
     '' on '' @ js_string (cfg_name modelConfig) @ ''.''"

definition createRbacMiddleware :: "model_config \<Rightarrow> string \<Rightarrow> claims \<Rightarrow> mw_result" where
  "createRbacMiddleware modelConfig action user =
     (let userRole = role user in
      case cfg_rbac modelConfig of
        None \<Rightarrow> Raise ''TypeError: Cannot read properties of undefined''
      | Some rbac \<Rightarrow>
          (case js_get rbac userRole of
             Undefined \<Rightarrow>
               Send \<lparr>status = 403, content = Text (forbidden_message modelConfig userRole action)\<rparr>
           | Inherited \<Rightarrow> Raise ''TypeError: permissions.includes is not a function''
           | Own permissions \<Rightarrow>
               if action \<in> set permissions \<or> ''all'' \<in> set permissions then Next
               else Send \<lparr>status = 403, content = Text (forbidden_message modelConfig userRole action)\<rparr>))"

section \<open>Model registration and the generated CRUD routes\<close>

text \<open>The loop of \<open>registerModel\<close> that fills \<open>schema\<close>, one property per field.\<close>

definition column_of :: "field \<Rightarrow> column" where
  "column_of f =
     \<lparr>col_type = getSequelizeType (f_type f), col_allowNull = (\<not> f_required f),
      col_defaultValue = f_default f, col_unique = f_unique f\<rparr>"

fun schema_put :: "string \<Rightarrow> column \<Rightarrow> schema \<Rightarrow> schema" where
  "schema_put k v [] = [(k, v)]"
| "schema_put k v ((k', v') # schema) =
     (if k = k' then (k, v) # schema else (k', v') # schema_put k v schema)"

fun build_schema :: "field list \<Rightarrow> schema \<Rightarrow> schema" where
  "build_schema [] schema = schema"
| "build_schema (f # fs) schema = build_schema fs (schema_put (f_name f) (column_of f) schema)"

text \<open>
  The five handlers. Each is the body of the \<open>async (req, res)\<close> function of its route,
  with the status its \<open>catch\<close> sends. \<open>pk\<close> is \<open>req.params.id\<close>.
\<close>

definition send :: "nat \<Rightarrow> content \<Rightarrow> response" where
  "send code c = \<lparr>status = code, content = c\<rparr>"

definition handler ::
  "('fs, 'db) env \<Rightarrow> crud_op \<Rightarrow> dyn_model \<Rightarrow> string \<Rightarrow> row \<Rightarrow> 'db \<Rightarrow> response \<times> 'db" where
  "handler e op DynamicModel pk body d =
     (case op of
        Create \<Rightarrow>
          (case orm_create e DynamicModel body d of
             (Inl msg, d') \<Rightarrow> (send 400 (Text msg), d')
           | (Inr item, d') \<Rightarrow> (send 201 (Item item), d'))
      | ListAll \<Rightarrow>
          (case orm_findAll e DynamicModel d of
             (Inl msg, d') \<Rightarrow> (send 500 (Text msg), d')
           | (Inr items, d') \<Rightarrow> (send 200 (Items items), d'))
      | GetById \<Rightarrow>
          (case orm_findByPk e DynamicModel pk d of
             (Inl msg, d') \<Rightarrow> (send 500 (Text msg), d')
           | (Inr None, d') \<Rightarrow> (send 404 (Text ''Not found''), d')
           | (Inr (Some item), d') \<Rightarrow> (send 200 (Item item), d'))
      | Update \<Rightarrow>
          (case orm_findByPk e DynamicModel pk d of
             (Inl msg, d') \<Rightarrow> (send 400 (Text msg), d')
           | (Inr None, d') \<Rightarrow> (send 404 (Text ''Not found''), d')
           | (Inr (Some item), d') \<Rightarrow>
               (case orm_update e DynamicModel item body d' of
                  (Inl msg, d'') \<Rightarrow> (send 400 (Text msg), d'')
                | (Inr item', d'') \<Rightarrow> (send 200 (Item item'), d'')))
      | Delete \<Rightarrow>
          (case orm_findByPk e DynamicModel pk d of
             (Inl msg, d') \<Rightarrow> (send 500 (Text msg), d')
           | (Inr None, d') \<Rightarrow> (send 404 (Text ''Not found''), d')
           | (Inr (Some item), d') \<Rightarrow>
               (case orm_destroy e DynamicModel item d' of
                  (Inl msg, d'') \<Rightarrow> (send 500 (Text msg), d'')
                | (Inr u, d'') \<Rightarrow> (send 204 Empty, d''))))"

text \<open>The five routes \<open>registerModel\<close> adds, in the order of the source.\<close>

definition crud_routes :: "model_config \<Rightarrow> dyn_model \<Rightarrow> string \<Rightarrow> route list" where
  "crud_routes modelConfig DynamicModel routeBase =
     [\<lparr>rt_method = POST, rt_base = routeBase, rt_param = False, rt_config = modelConfig,
       rt_action = ''create'', rt_op = Create, rt_model = DynamicModel\<rparr>,
      \<lparr>rt_method = GET, rt_base = routeBase, rt_param = False, rt_config = modelConfig,
       rt_action = ''read'', rt_op = ListAll, rt_model = DynamicModel\<rparr>,
      \<lparr>rt_method = GET, rt_base = routeBase, rt_param = True, rt_config = modelConfig,
       rt_action = ''read'', rt_op = GetById, rt_model = DynamicModel\<rparr>,
      \<lparr>rt_method = PUT, rt_base = routeBase, rt_param = True, rt_config = modelConfig,
       rt_action = ''update'', rt_op = Update, rt_model = DynamicModel\<rparr>,
      \<lparr>rt_method = DELETE, rt_base = routeBase, rt_param = True, rt_config = modelConfig,
       rt_action = ''delete'', rt_op = Delete, rt_model = DynamicModel\<rparr>]"

text \<open>
  \<open>modelConfig.tableName || `${modelName.toLowerCase()}s`\<close>: the right operand throws a
  TypeError when the configuration has no name.
\<close>

definition table_name :: "model_config \<Rightarrow> string + string" where
  "table_name modelConfig =
     (case cfg_tableName modelConfig of
        Some t \<Rightarrow>
          (if t \<noteq> [] then Inr t
           else (case cfg_name modelConfig of
                   None \<Rightarrow> Inl ''TypeError: Cannot read properties of undefined''
                 | Some n \<Rightarrow> Inr (toLowerCase n @ ''s'')))
      | None \<Rightarrow>
          (case cfg_name modelConfig of
             None \<Rightarrow> Inl ''TypeError: Cannot read properties of undefined''
           | Some n \<Rightarrow> Inr (toLowerCase n @ ''s'')))"

text \<open>
  \<open>registerModel\<close>. The result is \<open>Inl\<close> with the message when the function throws; the
  state returned then holds every assignment made before the throw. The steps keep the
  order of the source: table name, schema, \<open>sequelize.define\<close> (which may throw, for
  instance on a field named \<open>id\<close>, since no field is marked as primary key), the assignment
  to \<open>dynamicModels[modelName]\<close>, the five routes, the log line and last
  \<open>DynamicModel.sync\<close>.
\<close>

definition registerModel ::
  "('fs, 'db) env \<Rightarrow> model_config \<Rightarrow> ('fs, 'db) state \<Rightarrow> (string + unit) \<times> ('fs, 'db) state" where
  "registerModel e modelConfig st =
     (let modelName = cfg_name modelConfig in
      case table_name modelConfig of
        Inl msg \<Rightarrow> (Inl msg, st)
      | Inr tableName \<Rightarrow>
          (case cfg_fields modelConfig of
             None \<Rightarrow> (Inl ''TypeError: modelConfig.fields is not iterable'', st)
           | Some fs \<Rightarrow>
               (let schema = build_schema fs [] in
                case orm_define e modelName schema tableName of
                  Inl msg \<Rightarrow> (Inl msg, st)
                | Inr defined \<Rightarrow>
                    (let DynamicModel = \<lparr>dm_name = modelName, dm_schema = schema, dm_table = tableName\<rparr>;
                         st1 = st\<lparr>dynamicModels := (dynamicModels st)
                                  (js_string modelName \<mapsto> \<lparr>model = DynamicModel, config = modelConfig\<rparr>)\<rparr>
                     in case modelName of
                          None \<Rightarrow> (Inl ''TypeError: Cannot read properties of undefined'', st1)
                        | Some n \<Rightarrow>
                            (let routeBase = ''/'' @ toLowerCase n;
                                 st2 = st1\<lparr>router := router st1 @ crud_routes modelConfig DynamicModel routeBase\<rparr>;
                                 st3 = st2\<lparr>console := console st2 @ [Log (''Registered routes for model: '' @ n)]\<rparr>
                             in case orm_sync e DynamicModel (db st3) of
                                  (Inl msg, d') \<Rightarrow> (Inl msg, st3\<lparr>db := d'\<rparr>)
                                | (Inr u, d') \<Rightarrow> (Inr (), st3\<lparr>db := d'\<rparr>))))))"

section \<open>Dispatch of a CRUD request by the router\<close>

text \<open>
  A request path is the list of its segments below \<open>/api\<close>. Express matches the routes of a
  router in the order they were added, ignoring case, and runs the first that matches;
  every route added by \<open>registerModel\<close> ends by sending a response, so a later route with
  the same method and path is never reached. Model names are taken to be single path
  segments without pattern characters.
\<close>

definition matches :: "'b request \<Rightarrow> route \<Rightarrow> bool" where
  "matches req r =
     (rt_method r = req_method req \<and>
      (case req_path req of
         [seg] \<Rightarrow> \<not> rt_param r \<and> rt_base r = ''/'' @ toLowerCase seg
       | [seg, pk] \<Rightarrow> rt_param r \<and> rt_base r = ''/'' @ toLowerCase seg
       | _ \<Rightarrow> False))"

definition param_id :: "'b request \<Rightarrow> string" where
  "param_id req = (case req_path req of [seg, pk] \<Rightarrow> pk | _ \<Rightarrow> [])"

text \<open>
  The middleware chain of one route: \<open>authMiddleware\<close>, the RBAC middleware, the handler.
  An exception thrown by a middleware reaches Express's default error handler (status 500).
\<close>

definition run_route ::
  "('fs, 'db) env \<Rightarrow> route \<Rightarrow> row request \<Rightarrow> ('fs, 'db) state \<Rightarrow> response \<times> ('fs, 'db) state" where
  "run_route e r req st =
     (case authMiddleware e req of
        Inl resp \<Rightarrow> (resp, st)
      | Inr user \<Rightarrow>
          (case createRbacMiddleware (rt_config r) (rt_action r) user of
             Send resp \<Rightarrow> (resp, st)
           | Raise msg \<Rightarrow> (send 500 (Text msg), st)
           | Next \<Rightarrow>
               (case handler e (rt_op r) (rt_model r) (param_id req) (req_body req) (db st) of
                  (resp, d') \<Rightarrow> (resp, st\<lparr>db := d'\<rparr>))))"

text \<open>\<open>None\<close>: no route of the router matches and the request goes on to the routes of the app.\<close>

definition dispatch ::
  "('fs, 'db) env \<Rightarrow> row request \<Rightarrow> ('fs, 'db) state \<Rightarrow> (response \<times> ('fs, 'db) state) option" where
  "dispatch e req st =
     (case find (matches req) (router st) of
        None \<Rightarrow> None
      | Some r \<Rightarrow> Some (run_route e r req st))"

section \<open>Publishing, schema lookup and boot\<close>

text \<open>The statement \<open>if (dynamicModels[modelName]) { console.warn(...) }\<close> of the publish handler.\<close>

definition warn_hot_reload :: "string \<Rightarrow> ('fs, 'db) state \<Rightarrow> ('fs, 'db) state" where
  "warn_hot_reload modelName st =
     (if js_get (dynamicModels st) modelName \<noteq> Undefined
      then st\<lparr>console := console st @
             [Warn (''Hot-reloading model: '' @ modelName @ ''. (In a real app, this is complex!)'')]\<rparr>
      else st)"

text \<open>The body of the handler of \<open>POST /api/models/publish\<close>, with its \<open>catch\<close>.\<close>

definition publish_handler ::
  "('fs, 'db) env \<Rightarrow> model_config \<Rightarrow> ('fs, 'db) state \<Rightarrow> response \<times> ('fs, 'db) state" where
  "publish_handler e modelConfig st =
     (let modelName = cfg_name modelConfig in
      if \<not> truthy modelName \<or> cfg_fields modelConfig = None \<or> cfg_rbac modelConfig = None
      then (send 400 (Text ''Invalid model configuration.''), st)
      else
        (case fs_writeJson e (config_path (js_string modelName @ ''.json'')) modelConfig (files st) of
           (Inl msg, f') \<Rightarrow>
             (send 500 (Text msg),
              st\<lparr>files := f', console := console st @ [Error (''Error publishing model: '' @ msg)]\<rparr>)
         | (Inr u, f') \<Rightarrow>
             (let st1 = st\<lparr>files := f'\<rparr>;
                  st2 = warn_hot_reload (js_string modelName) st1
              in case registerModel e modelConfig st2 of
                   (Inl msg, st3) \<Rightarrow>
                     (send 500 (Text msg),
                      st3\<lparr>console := console st3 @ [Error (''Error publishing model: '' @ msg)]\<rparr>)
                 | (Inr u', st3) \<Rightarrow>
                     (send 201 (Message (''Model '' @ js_string modelName @ '' published successfully.'')),
                      st3))))"

text \<open>The route \<open>POST /api/models/publish\<close>: \<open>authMiddleware\<close>, \<open>adminOnly\<close>, the handler.\<close>

definition publish ::
  "('fs, 'db) env \<Rightarrow> model_config request \<Rightarrow> ('fs, 'db) state \<Rightarrow> response \<times> ('fs, 'db) state" where
  "publish e req st =
     (case authMiddleware e req of
        Inl resp \<Rightarrow> (resp, st)
      | Inr user \<Rightarrow>
          (case adminOnly user of
             Send resp \<Rightarrow> (resp, st)
           | Raise msg \<Rightarrow> (send 500 (Text msg), st)
           | Next \<Rightarrow> publish_handler e (req_body req) st))"

text \<open>
  The route \<open>GET /api/models/:modelName\<close>. For a name that \<open>dynamicModels\<close> inherits,
  \<open>modelData\<close> is truthy and \<open>modelData.config\<close> is undefined: the response is 200 with an
  empty body.
\<close>

definition get_model_schema ::
  "('fs, 'db) env \<Rightarrow> 'b request \<Rightarrow> string \<Rightarrow> ('fs, 'db) state \<Rightarrow> response" where
  "get_model_schema e req modelName st =
     (case authMiddleware e req of
        Inl resp \<Rightarrow> resp
      | Inr user \<Rightarrow>
          (case js_get (dynamicModels st) modelName of
             Undefined \<Rightarrow> send 404 (Text ''Model schema not found.'')
           | Own modelData \<Rightarrow> send 200 (Schema (config modelData))
           | Inherited \<Rightarrow> send 200 Empty))"

text \<open>
  A request \<open>GET /api/models/<name>\<close> as the app routes it. The dynamic router is mounted
  on \<open>/api\<close> (\<open>app.use('/api', dynamicApiRouter)\<close>) before the route of the schema lookup is
  added, so a generated route that matches the path answers first. \<open>None\<close>: the request is
  for neither.
\<close>

definition api_models_lookup ::
  "('fs, 'db) env \<Rightarrow> row request \<Rightarrow> ('fs, 'db) state \<Rightarrow> (response \<times> ('fs, 'db) state) option" where
  "api_models_lookup e req st =
     (case dispatch e req st of
        Some out \<Rightarrow> Some out
      | None \<Rightarrow>
          (case req_path req of
             [seg, modelName] \<Rightarrow>
               if req_method req = GET \<and> toLowerCase seg = ''models''
               then Some (get_model_schema e req modelName st, st)
               else None
           | _ \<Rightarrow> None))"

text \<open>
  \<open>loadModelsFromFiles\<close>. \<open>load_loop\<close> is the \<open>for\<close> loop over the directory listing: an
  exception of \<open>readJson\<close> or \<open>registerModel\<close> leaves the loop. The \<open>try\<close> of the source
  encloses the whole loop, and its \<open>catch\<close> logs the error.
\<close>

fun load_loop ::
  "('fs, 'db) env \<Rightarrow> string list \<Rightarrow> ('fs, 'db) state \<Rightarrow> (string + unit) \<times> ('fs, 'db) state" where
  "load_loop e [] st = (Inr (), st)"
| "load_loop e (file # rest) st =
     (if endsWith file ''.json''
      then (case fs_readJson e (config_path file) (files st) of
              Inl msg \<Rightarrow> (Inl msg, st)
            | Inr cfg \<Rightarrow>
                (case registerModel e cfg st of
                   (Inl msg, st') \<Rightarrow> (Inl msg, st')
                 | (Inr u, st') \<Rightarrow> load_loop e rest st'))
      else load_loop e rest st)"

definition loadModelsFromFiles :: "('fs, 'db) env \<Rightarrow> ('fs, 'db) state \<Rightarrow> ('fs, 'db) state" where
  "loadModelsFromFiles e st =
     (case fs_ensureDir e (files st) of
        (Inl msg, f') \<Rightarrow>
          st\<lparr>files := f', console := console st @ [Error (''Error loading models: '' @ msg)]\<rparr>
      | (Inr u, f') \<Rightarrow>
          (let st1 = st\<lparr>files := f'\<rparr>
           in case fs_readdir e (files st1) of
                Inl msg \<Rightarrow> st1\<lparr>console := console st1 @ [Error (''Error loading models: '' @ msg)]\<rparr>
              | Inr names \<Rightarrow>
                  (case load_loop e names st1 of
                     (Inl msg, st2) \<Rightarrow>
                       st2\<lparr>console := console st2 @ [Error (''Error loading models: '' @ msg)]\<rparr>
                   | (Inr u', st2) \<Rightarrow> st2)))"

section \<open>An in-memory environment for running scenarios\<close>

text \<open>
  A small stand-in for the three libraries, used only to evaluate the server on concrete
  requests. The file system is a list of file names of the configuration directory with
  their contents (\<open>Inl\<close>: text that \<open>readJson\<close> cannot parse, with the parser's message); the
  database is a list of table names with their rows; a token is valid when it is the name
  of one of the three roles. \<open>define\<close> throws on a column named \<open>id\<close>, as Sequelize does for
  an \<open>id\<close> attribute that is not the primary key, and \<open>create\<close> rejects a row that lacks a
  value for a column that is not nullable and has no default, as Sequelize's notNull
  validation does. A stored row is the request body; the identifier and the timestamps
  that Sequelize adds to a row are left out.
\<close>

type_synonym mem_fs = "(string \<times> (string + model_config)) list"

type_synonym mem_db = "(string \<times> row list) list"

definition mem_verify :: "string \<Rightarrow> claims option" where
  "mem_verify token =
     (if token \<in> set [''Admin'', ''Manager'', ''Viewer'']
      then Some \<lparr>user_id = token, username = token, role = token\<rparr>
      else None)"

definition mem_readJson :: "string \<Rightarrow> mem_fs \<Rightarrow> string + model_config" where
  "mem_readJson path f =
     (case find (\<lambda>(file, c). config_path file = path) f of
        None \<Rightarrow> Inl ''ENOENT''
      | Some (file, c) \<Rightarrow> c)"

definition mem_writeJson :: "string \<Rightarrow> model_config \<Rightarrow> mem_fs \<Rightarrow> (string + unit) \<times> mem_fs" where
  "mem_writeJson path c f =
     (Inr (), filter (\<lambda>(file, c'). config_path file \<noteq> path) f @
              [(drop (length (config_path [])) path, Inr c)])"

definition mem_rows :: "dyn_model \<Rightarrow> mem_db \<Rightarrow> row list option" where
  "mem_rows m d = map_of d (dm_table m)"

definition mem_store :: "dyn_model \<Rightarrow> row list \<Rightarrow> mem_db \<Rightarrow> mem_db" where
  "mem_store m rows d = map (\<lambda>(t, old). if t = dm_table m then (t, rows) else (t, old)) d"

definition mem_sync :: "dyn_model \<Rightarrow> mem_db \<Rightarrow> (string + unit) \<times> mem_db" where
  "mem_sync m d = (Inr (), if mem_rows m d = None then d @ [(dm_table m, [])] else d)"

definition mem_define :: "string option \<Rightarrow> schema \<Rightarrow> string \<Rightarrow> string + unit" where
  "mem_define modelName schema tableName =
     (if map_of schema ''id'' \<noteq> None
      then Inl (''A column called '' @ quoted ''id'' @ '' was added to the attributes of '' @
                quoted tableName @ '' but not marked with '' @ quoted ''primaryKey: true'')
      else Inr ())"

definition not_null_violations :: "dyn_model \<Rightarrow> row \<Rightarrow> string list" where
  "not_null_violations m body =
     map fst (filter (\<lambda>(k, c). \<not> col_allowNull c \<and> col_defaultValue c = None \<and> map_of body k = None)
                     (dm_schema m))"

definition mem_create :: "dyn_model \<Rightarrow> row \<Rightarrow> mem_db \<Rightarrow> (string + row) \<times> mem_db" where
  "mem_create m body d =
     (case mem_rows m d of
        None \<Rightarrow> (Inl ''relation does not exist'', d)
      | Some rows \<Rightarrow>
          (case not_null_violations m body of
             k # ks \<Rightarrow>
               (Inl (''notNull Violation: '' @ js_string (dm_name m) @ ''.'' @ k @ '' cannot be null''), d)
           | [] \<Rightarrow> (Inr body, mem_store m (rows @ [body]) d)))"

definition mem_findAll :: "dyn_model \<Rightarrow> mem_db \<Rightarrow> (string + row list) \<times> mem_db" where
  "mem_findAll m d =
     (case mem_rows m d of
        None \<Rightarrow> (Inl ''relation does not exist'', d)
      | Some rows \<Rightarrow> (Inr rows, d))"

definition mem_findByPk :: "dyn_model \<Rightarrow> string \<Rightarrow> mem_db \<Rightarrow> (string + row option) \<times> mem_db" where
  "mem_findByPk m pk d =
     (case mem_rows m d of
        None \<Rightarrow> (Inl ''relation does not exist'', d)
      | Some rows \<Rightarrow> (Inr (find (\<lambda>r. map_of r ''id'' = Some pk) rows), d))"

definition mem_update :: "dyn_model \<Rightarrow> row \<Rightarrow> row \<Rightarrow> mem_db \<Rightarrow> (string + row) \<times> mem_db" where
  "mem_update m item body d =
     (case mem_rows m d of
        None \<Rightarrow> (Inl ''relation does not exist'', d)
      | Some rows \<Rightarrow>
          (let item' = body @ filter (\<lambda>(k, v). map_of body k = None) item
           in (Inr item', mem_store m (map (\<lambda>r. if r = item then item' else r) rows) d)))"

definition mem_destroy :: "dyn_model \<Rightarrow> row \<Rightarrow> mem_db \<Rightarrow> (string + unit) \<times> mem_db" where
  "mem_destroy m item d =
     (case mem_rows m d of
        None \<Rightarrow> (Inl ''relation does not exist'', d)
      | Some rows \<Rightarrow> (Inr (), mem_store m (filter (\<lambda>r. r \<noteq> item) rows) d))"

definition mem_env :: "(mem_fs, mem_db) env" where
  "mem_env =
     \<lparr>jwt_verify = mem_verify,
      fs_ensureDir = (\<lambda>f. (Inr (), f)),
      fs_readdir = (\<lambda>f. Inr (map fst f)),
      fs_readJson = mem_readJson,
      fs_writeJson = mem_writeJson,
      orm_define = mem_define,
      orm_sync = mem_sync,
      orm_create = mem_create,
      orm_findAll = mem_findAll,
      orm_findByPk = mem_findByPk,
      orm_update = mem_update,
      orm_destroy = mem_destroy\<rparr>"

text \<open>The same environment with a database whose \<open>sync\<close> always throws.\<close>

definition sync_fails_env :: "string \<Rightarrow> (mem_fs, mem_db) env" where
  "sync_fails_env msg = mem_env\<lparr>orm_sync := (\<lambda>m d. (Inl msg, d))\<rparr>"

text \<open>The same environment with a file system whose \<open>writeJson\<close> always throws.\<close>

definition write_fails_env :: "string \<Rightarrow> (mem_fs, mem_db) env" where
  "write_fails_env msg = mem_env\<lparr>fs_writeJson := (\<lambda>path c f. (Inl msg, f))\<rparr>"

definition boot_state :: "mem_fs \<Rightarrow> (mem_fs, mem_db) state" where
  "boot_state f = \<lparr>dynamicModels = Map.empty, router = [], console = [], files = f, db = []\<rparr>"

text \<open>The model of the scenario of the specification, and a redefinition of it.\<close>

definition product_fields :: "field list" where
  "product_fields =
     [\<lparr>f_name = ''name'', f_type = ''string'', f_required = True, f_default = None, f_unique = False\<rparr>,
      \<lparr>f_name = ''price'', f_type = ''number'', f_required = True, f_default = None, f_unique = False\<rparr>,
      \<lparr>f_name = ''inStock'', f_type = ''boolean'', f_required = False, f_default = None, f_unique = False\<rparr>]"

definition product :: model_config where
  "product =
     \<lparr>cfg_name = Some ''Product'', cfg_tableName = None, cfg_fields = Some product_fields,
      cfg_rbac = Some [''Admin'' \<mapsto> [''all''], ''Manager'' \<mapsto> [''read'', ''create'', ''update''],
                       ''Viewer'' \<mapsto> [''read'']]\<rparr>"

definition product_narrowed :: model_config where
  "product_narrowed =
     \<lparr>cfg_name = Some ''Product'', cfg_tableName = None, cfg_fields = Some (take 2 product_fields),
      cfg_rbac = Some [''Admin'' \<mapsto> [''all''], ''Manager'' \<mapsto> [''read''], ''Viewer'' \<mapsto> [''read'']]\<rparr>"

definition request_of :: "http_method \<Rightarrow> string list \<Rightarrow> string \<Rightarrow> 'b \<Rightarrow> 'b request" where
  "request_of m path token body =
     \<lparr>req_method = m, req_path = path, req_authorization = Some (''Bearer '' @ token), req_body = body\<rparr>"

text \<open>A definition with an empty field list, and one without a name.\<close>

definition empty_model :: model_config where
  "empty_model = \<lparr>cfg_name = Some ''Empty'', cfg_tableName = None, cfg_fields = Some [], cfg_rbac = Some Map.empty\<rparr>"

definition nameless_model :: model_config where
  "nameless_model = \<lparr>cfg_name = None, cfg_tableName = None, cfg_fields = Some product_fields, cfg_rbac = Some Map.empty\<rparr>"

text \<open>
  Two configuration directories with a file that \<open>readJson\<close> cannot parse, listed before and
  after a well-formed one.
\<close>

definition broken_first :: mem_fs where
  "broken_first = [(''broken.json'', Inl ''Unexpected token''), (''product.json'', Inr product)]"

definition broken_second :: mem_fs where
  "broken_second = [(''notes.txt'', Inl ''''), (''product.json'', Inr product),
                    (''broken.json'', Inl ''Unexpected token''), (''empty.json'', Inr empty_model)]"


text \<open>Product with the same fields and a matrix that leaves a Manager only \<open>read\<close>.\<close>

definition product_restricted :: model_config where
  "product_restricted =
     \<lparr>cfg_name = Some ''Product'', cfg_tableName = None, cfg_fields = Some product_fields,
      cfg_rbac = Some [''Admin'' \<mapsto> [''all''], ''Manager'' \<mapsto> [''read''], ''Viewer'' \<mapsto> [''read'']]\<rparr>"

text \<open>The state after an Admin publishes Product and then publishes the restricted Product.\<close>

definition republished :: "(mem_fs, mem_db) state" where
  "republished =
     snd (publish mem_env (request_of POST [''models'', ''publish''] ''Admin'' product_restricted)
       (snd (publish mem_env (request_of POST [''models'', ''publish''] ''Admin'' product) (boot_state []))))"

section \<open>Unfolding rules for evaluation\<close>

lemmas js_defs = toLowerCase_def lowerChar_def endsWith_def truthy_def js_string_def quoted_def
  config_path_def bearer_token_def js_get_def object_prototype_keys_def

lemmas mem_defs = mem_env_def mem_verify_def mem_readJson_def mem_writeJson_def mem_rows_def
  mem_store_def mem_define_def mem_sync_def not_null_violations_def mem_create_def mem_findAll_def mem_findByPk_def mem_update_def
  mem_destroy_def sync_fails_env_def write_fails_env_def boot_state_def product_def
  product_narrowed_def product_restricted_def product_fields_def request_of_def

lemmas server_defs = authMiddleware_def adminOnly_def createRbacMiddleware_def
  forbidden_message_def column_of_def send_def handler_def crud_routes_def table_name_def
  registerModel_def matches_def param_id_def run_route_def dispatch_def warn_hot_reload_def publish_handler_def
  publish_def get_model_schema_def api_models_lookup_def loadModelsFromFiles_def

section \<open>The type mapper\<close>

text \<open>
  Claim C7, as the specification states it: the type mapper maps each of \<open>string\<close>,
  \<open>number\<close>, \<open>boolean\<close>, \<open>date\<close> to a column type and fails with an UnknownFieldType error on
  every other input. The \<open>default\<close> branch of \<open>getSequelizeType\<close> returns
  \<open>Sequelize.STRING\<close>: on \<open>uuid\<close>, which is outside the enumeration, the mapper returns a
  column type and raises nothing.
\<close>

theorem getSequelizeType_unknown_counterexample:
  "''uuid'' \<notin> {''string'', ''number'', ''boolean'', ''date''} \<and> getSequelizeType ''uuid'' = STRING"
  by (simp add: getSequelizeType_def)

text \<open>
  Claim C7, amended: the type mapper is total over all strings. It maps \<open>string\<close> to STRING,
  \<open>number\<close> to FLOAT, \<open>boolean\<close> to BOOLEAN and \<open>date\<close> to DATE, and it maps every input
  outside that enumeration to STRING; it never fails.
\<close>

theorem getSequelizeType_total:
  "getSequelizeType ''string'' = STRING \<and> getSequelizeType ''number'' = FLOAT \<and>
   getSequelizeType ''boolean'' = BOOLEAN \<and> getSequelizeType ''date'' = DATE \<and>
   (t \<notin> {''string'', ''number'', ''boolean'', ''date''} \<longrightarrow> getSequelizeType t = STRING)"
  by (simp add: getSequelizeType_def)

theorem getSequelizeType_total_witness:
  "''text'' \<notin> {''string'', ''number'', ''boolean'', ''date''} \<and> getSequelizeType ''text'' = STRING"
  using getSequelizeType_total [of "''text''"] by simp

section \<open>Permission evaluation\<close>

lemma js_get_own:
  "obj key = Some v \<Longrightarrow> js_get obj key = Own v"
  by (simp add: js_get_def)

lemma js_get_absent:
  "obj key = None \<Longrightarrow> key \<notin> set object_prototype_keys \<Longrightarrow> js_get obj key = Undefined"
  by (simp add: js_get_def)

lemma known_roles_not_inherited:
  "r \<in> {''Admin'', ''Manager'', ''Viewer''} \<Longrightarrow> r \<notin> set object_prototype_keys"
  by (auto simp: object_prototype_keys_def)

text \<open>
  Claim C2: permission evaluation is the condition under which the RBAC middleware calls
  \<open>next()\<close>. For every permission matrix, every action and every role that does not name a
  property of \<open>Object.prototype\<close> (the roles Admin, Manager and Viewer, the only ones that
  \<open>/auth/signup\<close> accepts, are such roles by \<open>known_roles_not_inherited\<close>), it is false when
  the role is absent from the matrix; otherwise it is true exactly when the role's action
  list contains the action or contains \<open>all\<close>; in particular it is true for every action,
  also one outside create/read/update/delete, as soon as the list contains \<open>all\<close>. When it
  is false the middleware sends 403 Forbidden.
\<close>

theorem rbac_decision:
  assumes "cfg_rbac modelConfig = Some m"
    and "role user \<notin> set object_prototype_keys"
  shows "(m (role user) = None \<longrightarrow> createRbacMiddleware modelConfig action user \<noteq> Next) \<and>
         (\<forall>permissions. m (role user) = Some permissions \<longrightarrow>
            (createRbacMiddleware modelConfig action user = Next) =
            (action \<in> set permissions \<or> ''all'' \<in> set permissions)) \<and>
         (\<forall>permissions. m (role user) = Some permissions \<and> ''all'' \<in> set permissions \<longrightarrow>
            createRbacMiddleware modelConfig action user = Next) \<and>
         (createRbacMiddleware modelConfig action user \<noteq> Next \<longrightarrow>
            createRbacMiddleware modelConfig action user =
              Send \<lparr>status = 403, content = Text (forbidden_message modelConfig (role user) action)\<rparr>)"
proof (cases "m (role user)")
  case None
  from None assms(2) have "js_get m (role user) = Undefined"
    by (rule js_get_absent)
  with assms(1) None show ?thesis
    by (simp add: createRbacMiddleware_def Let_def)
next
  case (Some permissions)
  then have "js_get m (role user) = Own permissions"
    by (rule js_get_own)
  with assms(1) Some show ?thesis
    by (simp add: createRbacMiddleware_def Let_def)
qed

theorem rbac_decision_witness:
  "cfg_rbac product = Some [''Admin'' \<mapsto> [''all''], ''Manager'' \<mapsto> [''read'', ''create'', ''update''],
                           ''Viewer'' \<mapsto> [''read'']] \<and>
   createRbacMiddleware product ''purge'' \<lparr>user_id = ''1'', username = ''ann'', role = ''Admin''\<rparr> = Next \<and>
   createRbacMiddleware product ''read'' \<lparr>user_id = ''2'', username = ''bob'', role = ''Guest''\<rparr> \<noteq> Next \<and>
   createRbacMiddleware product ''delete'' \<lparr>user_id = ''3'', username = ''cy'', role = ''Manager''\<rparr> =
     Send \<lparr>status = 403, content = Text (forbidden_message product ''Manager'' ''delete'')\<rparr>"
proof -
  let ?m = "[''Admin'' \<mapsto> [''all''], ''Manager'' \<mapsto> [''read'', ''create'', ''update''],
             ''Viewer'' \<mapsto> [''read'']]"
  let ?ann = "\<lparr>user_id = ''1'', username = ''ann'', role = ''Admin''\<rparr>"
  let ?bob = "\<lparr>user_id = ''2'', username = ''bob'', role = ''Guest''\<rparr>"
  let ?cy = "\<lparr>user_id = ''3'', username = ''cy'', role = ''Manager''\<rparr>"
  have h: "cfg_rbac product = Some ?m"
    by (simp add: product_def)
  have r1: "role ?ann \<notin> set object_prototype_keys"
    by (simp add: object_prototype_keys_def)
  have r2: "role ?bob \<notin> set object_prototype_keys"
    by (simp add: object_prototype_keys_def)
  have r3: "role ?cy \<notin> set object_prototype_keys"
    by (simp add: object_prototype_keys_def)
  from rbac_decision [OF h r1, of "''purge''"]
  have admin: "createRbacMiddleware product ''purge'' ?ann = Next"
    by simp
  from rbac_decision [OF h r2, of "''read''"]
  have guest: "createRbacMiddleware product ''read'' ?bob \<noteq> Next"
    by simp
  from rbac_decision [OF h r3, of "''delete''"]
  have manager: "createRbacMiddleware product ''delete'' ?cy =
      Send \<lparr>status = 403, content = Text (forbidden_message product ''Manager'' ''delete'')\<rparr>"
    by simp
  from h admin guest manager show ?thesis by blast
qed

section \<open>The generated CRUD routes deny before they touch storage\<close>

text \<open>The routes that \<open>registerModel\<close> adds to the router are those of \<open>crud_routes\<close>.\<close>

lemma registerModel_router:
  "router (snd (registerModel e c st)) = router st \<or>
   (\<exists>n fs t. cfg_name c = Some n \<and> cfg_fields c = Some fs \<and> table_name c = Inr t \<and>
      router (snd (registerModel e c st)) =
        router st @ crud_routes c \<lparr>dm_name = Some n, dm_schema = build_schema fs [], dm_table = t\<rparr>
                      (''/'' @ toLowerCase n))"
  by (auto simp: registerModel_def Let_def split: sum.splits option.splits prod.splits)

text \<open>
  Claim C3: for every one of the five CRUD routes generated from a configuration (Create,
  ListAll, GetById, Update, Delete, each with its fixed action), every payload and every
  caller role that does not name a property of \<open>Object.prototype\<close> (so every role of the
  enumeration Admin, Manager, Viewer): when the permission matrix of that configuration
  does not allow the route's action for the caller's role, the route answers 403 Forbidden
  (the PermissionDenied error) and the whole server state, the database included, is
  unchanged. The statement holds for every environment, so no function of the Table Store
  is called: with a database that records each call, an unchanged database means an empty
  record.
\<close>

theorem crud_denied_before_storage:
  assumes "r \<in> set (crud_routes modelConfig DynamicModel routeBase)"
    and "authMiddleware e req = Inr user"
    and "cfg_rbac modelConfig = Some m"
    and "role user \<notin> set object_prototype_keys"
    and "\<forall>permissions. m (role user) = Some permissions \<longrightarrow>
           rt_action r \<notin> set permissions \<and> ''all'' \<notin> set permissions"
  shows "run_route e r req st =
           (\<lparr>status = 403, content = Text (forbidden_message modelConfig (role user) (rt_action r))\<rparr>, st) \<and>
         (rt_op r, rt_action r) \<in> {(Create, ''create''), (ListAll, ''read''), (GetById, ''read''),
                                    (Update, ''update''), (Delete, ''delete'')} \<and>
         map rt_op (crud_routes modelConfig DynamicModel routeBase) =
           [Create, ListAll, GetById, Update, Delete]"
proof -
  from assms(1) have cfg: "rt_config r = modelConfig"
    by (auto simp: crud_routes_def)
  have denied: "createRbacMiddleware modelConfig (rt_action r) user =
      Send \<lparr>status = 403, content = Text (forbidden_message modelConfig (role user) (rt_action r))\<rparr>"
  proof (cases "m (role user)")
    case None
    from None assms(4) have "js_get m (role user) = Undefined"
      by (rule js_get_absent)
    with assms(3) show ?thesis
      by (simp add: createRbacMiddleware_def Let_def)
  next
    case (Some permissions)
    then have "js_get m (role user) = Own permissions"
      by (rule js_get_own)
    with assms(3,5) Some show ?thesis
      by (simp add: createRbacMiddleware_def Let_def)
  qed
  have run: "run_route e r req st =
      (\<lparr>status = 403, content = Text (forbidden_message modelConfig (role user) (rt_action r))\<rparr>, st)"
    by (simp add: run_route_def assms(2) cfg denied)
  from assms(1) have act: "(rt_op r, rt_action r) \<in> {(Create, ''create''), (ListAll, ''read''),
      (GetById, ''read''), (Update, ''update''), (Delete, ''delete'')}"
    by (auto simp: crud_routes_def)
  have ops: "map rt_op (crud_routes modelConfig DynamicModel routeBase) =
      [Create, ListAll, GetById, Update, Delete]"
    by (simp add: crud_routes_def)
  from run act ops show ?thesis by blast
qed

theorem crud_denied_before_storage_witness:
  "authMiddleware mem_env (request_of POST [''product''] ''Viewer'' [(''name'', ''Pen''), (''price'', ''1.5'')]) =
     Inr \<lparr>user_id = ''Viewer'', username = ''Viewer'', role = ''Viewer''\<rparr> \<and>
   run_route mem_env
     (hd (crud_routes product
            \<lparr>dm_name = Some ''Product'', dm_schema = build_schema product_fields [], dm_table = ''products''\<rparr>
            ''/product''))
     (request_of POST [''product''] ''Viewer'' [(''name'', ''Pen''), (''price'', ''1.5'')])
     (boot_state []\<lparr>db := [(''products'', [])]\<rparr>) =
     (\<lparr>status = 403, content = Text (forbidden_message product ''Viewer'' ''create'')\<rparr>,
      boot_state []\<lparr>db := [(''products'', [])]\<rparr>)"
proof -
  let ?dm = "\<lparr>dm_name = Some ''Product'', dm_schema = build_schema product_fields [], dm_table = ''products''\<rparr>"
  let ?r = "hd (crud_routes product ?dm ''/product'')"
  let ?req = "request_of POST [''product''] ''Viewer'' [(''name'', ''Pen''), (''price'', ''1.5'')]"
  let ?u = "\<lparr>user_id = ''Viewer'', username = ''Viewer'', role = ''Viewer''\<rparr>"
  let ?m = "[''Admin'' \<mapsto> [''all''], ''Manager'' \<mapsto> [''read'', ''create'', ''update''],
             ''Viewer'' \<mapsto> [''read'']]"
  have h1: "?r \<in> set (crud_routes product ?dm ''/product'')"
    by (simp add: crud_routes_def)
  have h2: "authMiddleware mem_env ?req = Inr ?u"
    by (simp add: authMiddleware_def request_of_def mem_env_def mem_verify_def js_defs)
  have h3: "cfg_rbac product = Some ?m"
    by (simp add: product_def)
  have h4: "role ?u \<notin> set object_prototype_keys"
    by (simp add: object_prototype_keys_def)
  have h5: "\<forall>permissions. ?m (role ?u) = Some permissions \<longrightarrow>
      rt_action ?r \<notin> set permissions \<and> ''all'' \<notin> set permissions"
    by (simp add: crud_routes_def)
  have act: "rt_action ?r = ''create''"
    by (simp add: crud_routes_def)
  from crud_denied_before_storage [OF h1 h2 h3 h4 h5, of "boot_state []\<lparr>db := [(''products'', [])]\<rparr>"] h2 act
  show ?thesis by simp
qed

section \<open>Publishing is reserved to the Admin role\<close>

text \<open>
  Claim C10: for every authenticated caller whose role is not Admin, the publish route
  answers 403 Forbidden and leaves the state as it was, so nothing is written to the File
  Store and nothing is registered; a publish that changes the state or answers 201 comes
  from a caller whose role is Admin.
\<close>

theorem publish_requires_admin:
  "(\<forall>user. authMiddleware e req = Inr user \<and> role user \<noteq> ''Admin'' \<longrightarrow>
      publish e req st =
        (\<lparr>status = 403, content = Text ''Forbidden. Admin access required.''\<rparr>, st)) \<and>
   (snd (publish e req st) \<noteq> st \<or> status (fst (publish e req st)) = 201 \<longrightarrow>
      (\<exists>user. authMiddleware e req = Inr user \<and> role user = ''Admin''))"
proof (intro conjI allI impI)
  fix user
  assume "authMiddleware e req = Inr user \<and> role user \<noteq> ''Admin''"
  then show "publish e req st =
      (\<lparr>status = 403, content = Text ''Forbidden. Admin access required.''\<rparr>, st)"
    by (simp add: publish_def adminOnly_def)
next
  assume changed: "snd (publish e req st) \<noteq> st \<or> status (fst (publish e req st)) = 201"
  show "\<exists>user. authMiddleware e req = Inr user \<and> role user = ''Admin''"
  proof (cases "authMiddleware e req")
    case (Inl resp)
    then have "status resp = 401 \<or> status resp = 400"
      by (auto simp: authMiddleware_def Let_def split: if_splits option.splits)
    with Inl changed show ?thesis
      by (auto simp: publish_def)
  next
    case (Inr user)
    with changed show ?thesis
      by (cases "role user = ''Admin''") (auto simp: publish_def adminOnly_def)
  qed
qed

theorem publish_requires_admin_witness:
  "authMiddleware mem_env (request_of POST [''models'', ''publish''] ''Manager'' product) =
     Inr \<lparr>user_id = ''Manager'', username = ''Manager'', role = ''Manager''\<rparr> \<and>
   publish mem_env (request_of POST [''models'', ''publish''] ''Manager'' product) (boot_state []) =
     (\<lparr>status = 403, content = Text ''Forbidden. Admin access required.''\<rparr>, boot_state []) \<and>
   status (fst (publish mem_env (request_of POST [''models'', ''publish''] ''Admin'' product) (boot_state []))) = 201 \<and>
   (\<exists>user. authMiddleware mem_env (request_of POST [''models'', ''publish''] ''Admin'' product) = Inr user \<and>
      role user = ''Admin'')"
proof -
  let ?req = "request_of POST [''models'', ''publish''] ''Manager'' product"
  let ?adm = "request_of POST [''models'', ''publish''] ''Admin'' product"
  have h: "authMiddleware mem_env ?req = Inr \<lparr>user_id = ''Manager'', username = ''Manager'', role = ''Manager''\<rparr>"
    by (simp add: authMiddleware_def request_of_def mem_env_def mem_verify_def js_defs)
  have ok: "status (fst (publish mem_env ?adm (boot_state []))) = 201"
    by (simp add: mem_defs js_defs server_defs Let_def)
  from publish_requires_admin [of mem_env ?req "boot_state []"]
       publish_requires_admin [of mem_env ?adm "boot_state []"] h ok
  show ?thesis by simp
qed

section \<open>Registration followed by lookup\<close>

lemma registerModel_define_throws:
  assumes "cfg_name c = Some n" and "cfg_fields c = Some fs" and "table_name c = Inr t"
    and "orm_define e (Some n) (build_schema fs []) t = Inl msg"
  shows "registerModel e c st = (Inl msg, st)"
  using assms by (simp add: registerModel_def Let_def)





section \<open>Validation of a published definition\<close>

text \<open>
  Claim C6, as the specification states it: validation succeeds only if the definition has
  a non-empty name, a non-empty field list, pairwise distinct field names and field types
  within string, number, boolean, date. The publish handler tests only that \<open>name\<close>,
  \<open>fields\<close> and \<open>rbac\<close> are truthy, and an empty array is truthy: a definition with the
  empty field list is accepted by an Admin's publish, answered with 201 and registered.
\<close>

theorem publish_accepts_empty_field_list_counterexample:
  "cfg_fields empty_model = Some [] \<and>
   fst (publish mem_env (request_of POST [''models'', ''publish''] ''Admin'' empty_model) (boot_state [])) =
     \<lparr>status = 201, content = Message ''Model Empty published successfully.''\<rparr> \<and>
   map_option config
     (dynamicModels (snd (publish mem_env (request_of POST [''models'', ''publish''] ''Admin'' empty_model)
        (boot_state []))) ''Empty'') = Some empty_model"
  by (simp add: empty_model_def mem_defs js_defs server_defs Let_def)

text \<open>
  Claim C6, amended: for an Admin's publish, validation rejects a definition exactly when
  its name is missing or empty, its field list is missing, or its permission matrix is
  missing; a rejected definition is answered with status 400 and the state is unchanged, so
  it is neither written to the File Store nor registered. Every other definition passes
  validation (the answer is 201 or, after a failure of the file or the storage, 500),
  whatever its field list holds.
\<close>

theorem publish_validation:
  assumes "authMiddleware e req = Inr user" and "role user = ''Admin''"
  shows "if cfg_name (req_body req) = None \<or> cfg_name (req_body req) = Some [] \<or>
            cfg_fields (req_body req) = None \<or> cfg_rbac (req_body req) = None
         then publish e req st = (\<lparr>status = 400, content = Text ''Invalid model configuration.''\<rparr>, st)
         else status (fst (publish e req st)) \<in> {201, 500}"
proof -
  have run: "publish e req st = publish_handler e (req_body req) st"
    using assms by (simp add: publish_def adminOnly_def)
  show ?thesis
  proof (cases "cfg_name (req_body req) = None \<or> cfg_name (req_body req) = Some [] \<or>
            cfg_fields (req_body req) = None \<or> cfg_rbac (req_body req) = None")
    case True
    then have "\<not> truthy (cfg_name (req_body req)) \<or> cfg_fields (req_body req) = None \<or>
        cfg_rbac (req_body req) = None"
      by (auto simp: truthy_def)
    then have "publish_handler e (req_body req) st =
        (\<lparr>status = 400, content = Text ''Invalid model configuration.''\<rparr>, st)"
      by (simp add: publish_handler_def send_def)
    with True run show ?thesis by simp
  next
    case False
    then have ok: "truthy (cfg_name (req_body req))" "cfg_fields (req_body req) \<noteq> None"
        "cfg_rbac (req_body req) \<noteq> None"
      by (auto simp: truthy_def)
    have "status (fst (publish_handler e (req_body req) st)) \<in> {201, 500}"
      using ok by (auto simp: publish_handler_def Let_def send_def split: prod.splits sum.splits)
    with False run show ?thesis by auto
  qed
qed

theorem publish_validation_witness:
  "publish mem_env (request_of POST [''models'', ''publish''] ''Admin'' nameless_model) (boot_state []) =
     (\<lparr>status = 400, content = Text ''Invalid model configuration.''\<rparr>, boot_state []) \<and>
   status (fst (publish mem_env (request_of POST [''models'', ''publish''] ''Admin'' empty_model) (boot_state [])))
     \<in> {201, 500}"
proof -
  let ?bad = "request_of POST [''models'', ''publish''] ''Admin'' nameless_model"
  let ?good = "request_of POST [''models'', ''publish''] ''Admin'' empty_model"
  let ?u = "\<lparr>user_id = ''Admin'', username = ''Admin'', role = ''Admin''\<rparr>"
  have a1: "authMiddleware mem_env ?bad = Inr ?u"
    by (simp add: authMiddleware_def request_of_def mem_env_def mem_verify_def js_defs)
  have a2: "authMiddleware mem_env ?good = Inr ?u"
    by (simp add: authMiddleware_def request_of_def mem_env_def mem_verify_def js_defs)
  have r: "role ?u = ''Admin''" by simp
  from publish_validation [OF a1 r, of "boot_state []"] publish_validation [OF a2 r, of "boot_state []"]
  show ?thesis
    by (simp add: request_of_def nameless_model_def empty_model_def)
qed

section \<open>Failure of the storage binding\<close>

lemma registerModel_sync_fails:
  assumes "cfg_name c = Some n" and "cfg_fields c = Some fs" and "table_name c = Inr t"
    and "orm_define e (Some n) (build_schema fs []) t = Inr ()"
    and "fst (orm_sync e \<lparr>dm_name = Some n, dm_schema = build_schema fs [], dm_table = t\<rparr> (db st)) = Inl msg"
  shows "fst (registerModel e c st) = Inl msg"
    and "dynamicModels (snd (registerModel e c st)) =
           (dynamicModels st)(n \<mapsto> \<lparr>model = \<lparr>dm_name = Some n, dm_schema = build_schema fs [], dm_table = t\<rparr>,
                                     config = c\<rparr>)"
    and "router (snd (registerModel e c st)) =
           router st @ crud_routes c \<lparr>dm_name = Some n, dm_schema = build_schema fs [], dm_table = t\<rparr>
                         (''/'' @ toLowerCase n)"
    and "files (snd (registerModel e c st)) = files st"
  using assms
  by (auto simp: registerModel_def Let_def js_string_def split: prod.splits sum.splits)

text \<open>
  Claim C4, as the specification states it: when the storage binding step of a registration
  fails, the registry is unchanged and the previous active entry of that name stays active.
  \<open>registerModel\<close> assigns \<open>dynamicModels[modelName]\<close> and adds the routes before it calls
  \<open>sync\<close>: after Product is registered, a registration of a narrowed Product whose \<open>sync\<close>
  throws leaves the narrowed definition in the registry and ten routes in the router.
\<close>

theorem failed_registration_replaces_entry_counterexample:
  "fst (registerModel (sync_fails_env ''boom'') product_narrowed
          (snd (registerModel mem_env product (boot_state [])))) = Inl ''boom'' \<and>
   map_option config (dynamicModels (snd (registerModel mem_env product (boot_state []))) ''Product'') =
     Some product \<and>
   map_option config
     (dynamicModels (snd (registerModel (sync_fails_env ''boom'') product_narrowed
          (snd (registerModel mem_env product (boot_state []))))) ''Product'') = Some product_narrowed \<and>
   cfg_fields product_narrowed \<noteq> cfg_fields product \<and>
   length (router (snd (registerModel (sync_fails_env ''boom'') product_narrowed
          (snd (registerModel mem_env product (boot_state [])))))) = 10"
  by (simp add: mem_defs js_defs server_defs Let_def)

text \<open>
  Claim C4, amended: when registration fails in the storage binding step (\<open>sync\<close> throws),
  the registry entries of all other model names are unchanged, but the entry of the
  definition's own name already holds the failed definition and its five routes are already
  added to the router.
\<close>

theorem register_sync_failure:
  assumes "cfg_name c = Some n" and "cfg_fields c = Some fs" and "table_name c = Inr t"
    and "orm_define e (Some n) (build_schema fs []) t = Inr ()"
    and "fst (orm_sync e \<lparr>dm_name = Some n, dm_schema = build_schema fs [], dm_table = t\<rparr> (db st)) = Inl msg"
  shows "fst (registerModel e c st) = Inl msg \<and>
         (\<forall>k. k \<noteq> n \<longrightarrow> dynamicModels (snd (registerModel e c st)) k = dynamicModels st k) \<and>
         map_option config (dynamicModels (snd (registerModel e c st)) n) = Some c \<and>
         router (snd (registerModel e c st)) =
           router st @ crud_routes c \<lparr>dm_name = Some n, dm_schema = build_schema fs [], dm_table = t\<rparr>
                         (''/'' @ toLowerCase n)"
  using registerModel_sync_fails [OF assms] by simp

theorem register_sync_failure_witness:
  "cfg_name product_narrowed = Some ''Product'' \<and> table_name product_narrowed = Inr ''products'' \<and>
   fst (registerModel (sync_fails_env ''boom'') product_narrowed (boot_state [])) = Inl ''boom'' \<and>
   map_option config
     (dynamicModels (snd (registerModel (sync_fails_env ''boom'') product_narrowed (boot_state []))) ''Product'') =
     Some product_narrowed"
proof -
  let ?e = "sync_fails_env ''boom'' :: (mem_fs, mem_db) env"
  have h1: "cfg_name product_narrowed = Some ''Product''" by (simp add: product_narrowed_def)
  have h2: "cfg_fields product_narrowed = Some (take 2 product_fields)" by (simp add: product_narrowed_def)
  have h3: "table_name product_narrowed = Inr ''products''"
    by (simp add: table_name_def product_narrowed_def js_defs)
  have h4: "fst (orm_sync ?e \<lparr>dm_name = Some ''Product'', dm_schema = build_schema (take 2 product_fields) [],
      dm_table = ''products''\<rparr> (db (boot_state []))) = Inl ''boom''"
    by (simp add: sync_fails_env_def)
  have hd: "orm_define ?e (Some ''Product'') (build_schema (take 2 product_fields) []) ''products'' = Inr ()"
    by (simp add: sync_fails_env_def mem_env_def mem_define_def product_fields_def column_of_def)
  from register_sync_failure [OF h1 h2 h3 hd h4] h1 h3
  show ?thesis by simp
qed

section \<open>A publish that persists and then fails to register\<close>

lemma authMiddleware_same_verify:
  "jwt_verify e' = jwt_verify e \<Longrightarrow> authMiddleware e' req = authMiddleware e req"
  by (simp add: authMiddleware_def Let_def)

text \<open>
  Claim C8, as the specification states it: when the definition is persisted and the
  registration then fails, publish reports a PartialPublishError that can be told apart from
  a generic failure. The handler has one \<open>catch\<close> for both steps, which sends status 500
  with the message of the exception: a publish whose \<open>sync\<close> throws after the file is
  written gets the same response as a publish whose file write throws.
\<close>

theorem partial_publish_not_distinct_counterexample:
  "fst (publish (sync_fails_env ''boom'') (request_of POST [''models'', ''publish''] ''Admin'' product) (boot_state [])) =
     \<lparr>status = 500, content = Text ''boom''\<rparr> \<and>
   map fst (files (snd (publish (sync_fails_env ''boom'')
      (request_of POST [''models'', ''publish''] ''Admin'' product) (boot_state [])))) = [''Product.json''] \<and>
   fst (publish (write_fails_env ''boom'') (request_of POST [''models'', ''publish''] ''Admin'' product) (boot_state [])) =
     \<lparr>status = 500, content = Text ''boom''\<rparr> \<and>
   files (snd (publish (write_fails_env ''boom'')
      (request_of POST [''models'', ''publish''] ''Admin'' product) (boot_state []))) = []"
  by (simp add: mem_defs js_defs server_defs Let_def)

text \<open>
  Claim C8, amended: when an Admin publishes a definition that passes validation, the file
  is written and the registration then fails in \<open>sync\<close>, publish answers with the generic
  status 500 carrying the message of the exception, which is the answer a failed write with
  the same message gets; the written definition stays in the File Store and the registry
  already holds the new entry.
\<close>

theorem publish_partial_failure:
  assumes "authMiddleware (e :: ('fs, 'db) env) req = Inr user" and "role user = ''Admin''"
    and "cfg_name (req_body req) = Some n" and "n \<noteq> []"
    and "cfg_fields (req_body req) = Some fs" and "cfg_rbac (req_body req) = Some m"
    and "table_name (req_body req) = Inr t"
    and "orm_define e (Some n) (build_schema fs []) t = Inr ()"
    and "fs_writeJson e (config_path (n @ ''.json'')) (req_body req) (files st) = (Inr (), f')"
    and "fst (orm_sync e \<lparr>dm_name = Some n, dm_schema = build_schema fs [], dm_table = t\<rparr> (db st)) = Inl msg"
  shows "fst (publish e req st) = \<lparr>status = 500, content = Text msg\<rparr> \<and>
         files (snd (publish e req st)) = f' \<and>
         map_option config (dynamicModels (snd (publish e req st)) n) = Some (req_body req) \<and>
         (\<forall>e' :: ('fs, 'db) env. jwt_verify e' = jwt_verify e \<and>
               fst (fs_writeJson e' (config_path (n @ ''.json'')) (req_body req) (files st)) = Inl msg \<longrightarrow>
               fst (publish e' req st) = fst (publish e req st))"
proof -
  let ?c = "req_body req"
  have run: "publish e req st = publish_handler e ?c st"
    using assms(1,2) by (simp add: publish_def adminOnly_def)
  let ?st2 = "warn_hot_reload n (st\<lparr>files := f'\<rparr>)"
  have db2: "db ?st2 = db st" by (simp add: warn_hot_reload_def)
  have files2: "files ?st2 = f'" by (simp add: warn_hot_reload_def)
  note reg = registerModel_sync_fails [OF assms(3) assms(5) assms(7) assms(8), of ?st2 msg]
  have sync2: "fst (orm_sync e \<lparr>dm_name = Some n, dm_schema = build_schema fs [], dm_table = t\<rparr> (db ?st2)) = Inl msg"
    using assms(10) db2 by simp
  obtain st3 where st3: "registerModel e ?c ?st2 = (Inl msg, st3)"
    using reg(1) [OF sync2] by (cases "registerModel e ?c ?st2") auto
  have handler: "publish_handler e ?c st =
      (send 500 (Text msg), st3\<lparr>console := console st3 @ [Error (''Error publishing model: '' @ msg)]\<rparr>)"
    using assms(3,4,5,6,9) st3
    by (simp add: publish_handler_def Let_def truthy_def js_string_def)
  have st3_eq: "st3 = snd (registerModel e ?c ?st2)" using st3 by simp
  have resp: "fst (publish e req st) = \<lparr>status = 500, content = Text msg\<rparr>"
    by (simp add: run handler send_def)
  have fl: "files (snd (publish e req st)) = f'"
    using reg(4) [OF sync2] files2 by (simp add: run handler st3_eq del: split_paired_All)
  have ent: "map_option config (dynamicModels (snd (publish e req st)) n) = Some ?c"
    using reg(2) [OF sync2] by (simp add: run handler st3_eq)
  have generic: "\<forall>e' :: ('fs, 'db) env. jwt_verify e' = jwt_verify e \<and>
      fst (fs_writeJson e' (config_path (n @ ''.json'')) ?c (files st)) = Inl msg \<longrightarrow>
      fst (publish e' req st) = fst (publish e req st)"
  proof (intro allI impI)
    fix e' :: "('fs, 'db) env"
    assume h: "jwt_verify e' = jwt_verify e \<and>
      fst (fs_writeJson e' (config_path (n @ ''.json'')) ?c (files st)) = Inl msg"
    then have "jwt_verify e' = jwt_verify e" by simp
    then have "authMiddleware e' req = authMiddleware e req"
      by (rule authMiddleware_same_verify)
    with assms(1) have auth': "authMiddleware e' req = Inr user" by simp
    have run': "publish e' req st = publish_handler e' ?c st"
      using auth' assms(2) by (simp add: publish_def adminOnly_def)
    obtain f'' where w: "fs_writeJson e' (config_path (n @ ''.json'')) ?c (files st) = (Inl msg, f'')"
      using h by (cases "fs_writeJson e' (config_path (n @ ''.json'')) ?c (files st)") auto
    have "fst (publish_handler e' ?c st) = send 500 (Text msg)"
      using assms(3,4,5,6) w by (simp add: publish_handler_def Let_def truthy_def js_string_def)
    then show "fst (publish e' req st) = fst (publish e req st)"
      by (simp add: run' resp send_def)
  qed
  from resp fl ent generic show ?thesis by blast
qed

theorem publish_partial_failure_witness:
  "fs_writeJson (sync_fails_env ''boom'') (config_path ''Product.json'') product [] =
     (Inr (), [(''Product.json'', Inr product)]) \<and>
   fst (publish (sync_fails_env ''boom'') (request_of POST [''models'', ''publish''] ''Admin'' product) (boot_state [])) =
     \<lparr>status = 500, content = Text ''boom''\<rparr> \<and>
   files (snd (publish (sync_fails_env ''boom'') (request_of POST [''models'', ''publish''] ''Admin'' product)
     (boot_state []))) = [(''Product.json'', Inr product)] \<and>
   fst (publish (write_fails_env ''boom'') (request_of POST [''models'', ''publish''] ''Admin'' product) (boot_state [])) =
   fst (publish (sync_fails_env ''boom'') (request_of POST [''models'', ''publish''] ''Admin'' product) (boot_state []))"
proof -
  let ?e = "sync_fails_env ''boom'' :: (mem_fs, mem_db) env"
  let ?req = "request_of POST [''models'', ''publish''] ''Admin'' product"
  let ?u = "\<lparr>user_id = ''Admin'', username = ''Admin'', role = ''Admin''\<rparr>"
  have body: "req_body ?req = product" by (simp add: request_of_def)
  have h1: "authMiddleware ?e ?req = Inr ?u"
    by (simp add: authMiddleware_def request_of_def sync_fails_env_def mem_env_def mem_verify_def js_defs)
  have h2: "role ?u = ''Admin''" by simp
  have h3: "cfg_name (req_body ?req) = Some ''Product''" by (simp add: request_of_def product_def)
  have h4: "''Product'' \<noteq> []" by simp
  have h5: "cfg_fields (req_body ?req) = Some product_fields" by (simp add: request_of_def product_def)
  have h6: "cfg_rbac (req_body ?req) = Some [''Admin'' \<mapsto> [''all''],
      ''Manager'' \<mapsto> [''read'', ''create'', ''update''], ''Viewer'' \<mapsto> [''read'']]"
    by (simp add: request_of_def product_def)
  have h7: "table_name (req_body ?req) = Inr ''products''"
    by (simp add: request_of_def table_name_def product_def js_defs)
  have h8: "fs_writeJson ?e (config_path (''Product'' @ ''.json'')) (req_body ?req) (files (boot_state [])) =
      (Inr (), [(''Product.json'', Inr product)])"
    by (simp add: request_of_def sync_fails_env_def mem_env_def mem_writeJson_def boot_state_def config_path_def)
  have h9: "fst (orm_sync ?e \<lparr>dm_name = Some ''Product'', dm_schema = build_schema product_fields [],
      dm_table = ''products''\<rparr> (db (boot_state []))) = Inl ''boom''"
    by (simp add: sync_fails_env_def)
  have g: "jwt_verify (write_fails_env ''boom'' :: (mem_fs, mem_db) env) = jwt_verify ?e \<and>
      fst (fs_writeJson (write_fails_env ''boom'') (config_path (''Product'' @ ''.json'')) (req_body ?req)
             (files (boot_state []))) = Inl ''boom''"
    by (simp add: write_fails_env_def sync_fails_env_def mem_env_def)
  have hd: "orm_define ?e (Some ''Product'') (build_schema product_fields []) ''products'' = Inr ()"
    by (simp add: sync_fails_env_def mem_env_def mem_define_def product_fields_def column_of_def)
  note T = publish_partial_failure [OF h1 h2 h3 h4 h5 h6 h7 hd h8 h9]
  from T g have same: "fst (publish (write_fails_env ''boom'') ?req (boot_state [])) =
      fst (publish ?e ?req (boot_state []))"
    by blast
  from T same h8 show ?thesis
    by (simp add: body boot_state_def)
qed

section \<open>Boot\<close>

lemma load_loop_append:
  "load_loop e (xs @ ys) st =
     (case load_loop e xs st of (Inl msg, st') \<Rightarrow> (Inl msg, st') | (Inr u, st') \<Rightarrow> load_loop e ys st')"
proof (induction xs arbitrary: st)
  case Nil
  show ?case by simp
next
  case (Cons name rest)
  show ?case
    by (simp add: Cons.IH split: sum.splits prod.splits)
qed

lemma load_loop_stops:
  assumes "load_loop e before st = (Inr (), st1)" and "load_loop e [file] st1 = (Inl msg, st2)"
  shows "load_loop e (before @ file # after) st = (Inl msg, st2)"
proof -
  have one: "load_loop e (file # after) st1 = (Inl msg, st2)"
    using assms(2) load_loop_append [of e "[file]" after st1] by simp
  show ?thesis
    using assms(1) one by (simp add: load_loop_append)
qed

text \<open>
  Claim C9, as the specification states it: during boot a malformed definition file is
  logged and skipped, and every well-formed definition file is still registered. The \<open>try\<close>
  of \<open>loadModelsFromFiles\<close> encloses the whole loop: with an unparsable file listed before
  \<open>product.json\<close>, the error is logged and the loop is left, so Product, which registers
  without error on its own, is not registered.
\<close>

theorem boot_skips_valid_file_counterexample:
  "fs_readJson mem_env (config_path ''product.json'') broken_first = Inr product \<and>
   fst (registerModel mem_env product (boot_state broken_first)) = Inr () \<and>
   dynamicModels (loadModelsFromFiles mem_env (boot_state broken_first)) ''Product'' = None \<and>
   router (loadModelsFromFiles mem_env (boot_state broken_first)) = [] \<and>
   console (loadModelsFromFiles mem_env (boot_state broken_first)) =
     [Error ''Error loading models: Unexpected token'']"
  by (simp add: broken_first_def mem_defs js_defs server_defs Let_def)

text \<open>
  Claim C9, amended: during boot the definition files are processed in the order of the
  directory listing; the first file whose read or registration throws is logged and ends
  the load. The state of the server is then the state reached after the files listed before
  it, together with what the failing registration had already stored (nothing, when the
  file could not be parsed), and does not depend on the files listed after it, which are
  neither read nor registered. The boot itself is not aborted.
\<close>

theorem boot_stops_at_first_failure:
  assumes "fs_ensureDir e (files st) = (Inr (), f')"
    and "fs_readdir e f' = Inr (before @ file # after)"
    and "load_loop e before (st\<lparr>files := f'\<rparr>) = (Inr (), st1)"
    and "load_loop e [file] st1 = (Inl msg, st2)"
  shows "loadModelsFromFiles e st =
           st2\<lparr>console := console st2 @ [Error (''Error loading models: '' @ msg)]\<rparr> \<and>
         (\<forall>m. endsWith file ''.json'' \<and> fs_readJson e (config_path file) (files st1) = Inl m \<longrightarrow>
              st2 = st1 \<and> msg = m)"
proof -
  have loop: "load_loop e (before @ file # after) (st\<lparr>files := f'\<rparr>) = (Inl msg, st2)"
    using assms(3,4) by (rule load_loop_stops)
  have boot: "loadModelsFromFiles e st =
      st2\<lparr>console := console st2 @ [Error (''Error loading models: '' @ msg)]\<rparr>"
    by (simp add: loadModelsFromFiles_def assms(1,2) loop Let_def)
  have parse: "\<forall>m. endsWith file ''.json'' \<and> fs_readJson e (config_path file) (files st1) = Inl m \<longrightarrow>
      st2 = st1 \<and> msg = m"
    using assms(4) by auto
  from boot parse show ?thesis by blast
qed

theorem boot_stops_at_first_failure_witness:
  "fs_readdir mem_env broken_second = Inr ([''notes.txt'', ''product.json''] @ ''broken.json'' # [''empty.json'']) \<and>
   map_option config (dynamicModels (loadModelsFromFiles mem_env (boot_state broken_second)) ''Product'') =
     Some product \<and>
   dynamicModels (loadModelsFromFiles mem_env (boot_state broken_second)) ''Empty'' = None \<and>
   console (loadModelsFromFiles mem_env (boot_state broken_second)) =
     [Log ''Registered routes for model: Product'', Error ''Error loading models: Unexpected token'']"
proof -
  let ?st = "boot_state broken_second"
  define st1 where "st1 = snd (load_loop mem_env [''notes.txt'', ''product.json''] ?st)"
  have h1: "fs_ensureDir mem_env (files ?st) = (Inr (), broken_second)"
    by (simp add: mem_env_def boot_state_def)
  have h2: "fs_readdir mem_env broken_second =
      Inr ([''notes.txt'', ''product.json''] @ ''broken.json'' # [''empty.json''])"
    by (simp add: mem_env_def broken_second_def)
  have same: "?st\<lparr>files := broken_second\<rparr> = ?st"
    by (simp add: boot_state_def)
  have ok: "fst (load_loop mem_env [''notes.txt'', ''product.json''] ?st) = Inr ()"
    by (simp add: broken_second_def empty_model_def mem_defs js_defs server_defs Let_def)
  have h3: "load_loop mem_env [''notes.txt'', ''product.json''] (?st\<lparr>files := broken_second\<rparr>) =
      (Inr (), st1)"
    unfolding same st1_def using ok by (simp only: prod_eq_iff fst_conv snd_conv)
  have fl: "files st1 = broken_second"
    unfolding st1_def
    by (simp add: broken_second_def empty_model_def mem_defs js_defs server_defs Let_def)
  have rd: "fs_readJson mem_env (config_path ''broken.json'') broken_second = Inl ''Unexpected token''"
    by (simp add: broken_second_def mem_env_def mem_readJson_def config_path_def)
  have h4: "load_loop mem_env [''broken.json''] st1 = (Inl ''Unexpected token'', st1)"
    by (simp add: fl rd endsWith_def)
  have entry: "map_option config (dynamicModels st1 ''Product'') = Some product"
    unfolding st1_def
    by (simp add: broken_second_def empty_model_def mem_defs js_defs server_defs Let_def)
  have none: "dynamicModels st1 ''Empty'' = None"
    unfolding st1_def
    by (simp add: broken_second_def empty_model_def mem_defs js_defs server_defs Let_def)
  have log: "console st1 = [Log ''Registered routes for model: Product'']"
    unfolding st1_def
    by (simp add: broken_second_def empty_model_def mem_defs js_defs server_defs Let_def)
  from boot_stops_at_first_failure [OF h1 h2 h3 h4] h2 entry none log
  show ?thesis by simp
qed

section \<open>Redefinition of an active model\<close>

lemma find_append_first:
  "find P xs = Some x \<Longrightarrow> find P (xs @ ys) = Some x"
  by (induction xs) auto

lemma registerModel_router_extends:
  "\<exists>rs. router (snd (registerModel e c st)) = router st @ rs"
  by (auto simp: registerModel_def Let_def split: sum.splits option.splits prod.splits)

lemma first_registration_keeps_route:
  assumes "find (matches req) (router st) = Some r"
  shows "dispatch e' req (snd (registerModel e c st)) =
           Some (run_route e' r req (snd (registerModel e c st)))"
proof -
  obtain rs where "router (snd (registerModel e c st)) = router st @ rs"
    using registerModel_router_extends by blast
  with assms have "find (matches req) (router (snd (registerModel e c st))) = Some r"
    by (simp add: find_append_first)
  then show ?thesis
    by (simp add: dispatch_def)
qed

lemma mem_create_needs_price:
  "fst (mem_create \<lparr>dm_name = Some ''Product'', dm_schema = build_schema product_fields [],
                    dm_table = ''products''\<rparr> [(''name'', ''Pen'')] [(''products'', [])]) =
     Inl ''notNull Violation: Product.price cannot be null''"
  by (simp add: mem_defs js_defs column_of_def)

text \<open>
  Claim C1: after a model is redefined with a narrowed permission matrix, the next CRUD
  request for it is evaluated against the new matrix. The code does not do this: the
  routes of the first registration stay at the front of the router, and each of them ends
  the request, so the routes of the redefinition are never reached
  (\<open>first_registration_keeps_route\<close>, for every environment). Evaluated on the scenario:
  Product is published with Manager allowed to create, then republished with the same
  fields and Manager allowed to read only. The registry then holds the new definition, whose matrix
  denies create to a Manager; the route that the router selects for the Manager's next
  create request still carries the first definition, whose matrix allows it; the request,
  whose body gives the two required fields, is answered 201 and a row is inserted.
\<close>

theorem redefinition_keeps_old_permissions:
  "map_option config (dynamicModels republished ''Product'') = Some product_restricted \<and>
   createRbacMiddleware product_restricted ''create''
     \<lparr>user_id = ''Manager'', username = ''Manager'', role = ''Manager''\<rparr> =
     Send \<lparr>status = 403, content = Text (forbidden_message product_restricted ''Manager'' ''create'')\<rparr> \<and>
   map_option rt_config
     (find (matches (request_of POST [''product''] ''Manager'' [(''name'', ''Pen''), (''price'', ''1.5'')]))
        (router republished)) = Some product \<and>
   createRbacMiddleware product ''create''
     \<lparr>user_id = ''Manager'', username = ''Manager'', role = ''Manager''\<rparr> = Next \<and>
   map_option (status \<circ> fst)
     (dispatch mem_env (request_of POST [''product''] ''Manager'' [(''name'', ''Pen''), (''price'', ''1.5'')])
        republished) = Some 201 \<and>
   map_option (map (\<lambda>(table, rows). (table, length rows)) \<circ> db \<circ> snd)
     (dispatch mem_env (request_of POST [''product''] ''Manager'' [(''name'', ''Pen''), (''price'', ''1.5'')])
        republished) = Some [(''products'', 1)]"
  by (simp add: republished_def mem_defs js_defs server_defs Let_def)

end
